theory Spec2Isabelle
  imports Main "HOL-Library.Word"
begin

section \<open>The GATT server events of driver\_gatts.h\<close>

subsection \<open>Event discriminants and the name table\<close>

text \<open>
  The six discriminants that \<open>driver_gatts.h\<close> names. They are members of an enum of the
  native driver's header \<open>ble_gatts.h\<close>, which is not part of the sources: the datatype
  lists the identifiers, and every definition that needs their numeric values takes the
  numbering \<open>val\<close> of the native header as a parameter.
\<close>

datatype gatts_evt =
    BLE_GATTS_EVT_WRITE
  | BLE_GATTS_EVT_RW_AUTHORIZE_REQUEST
  | BLE_GATTS_EVT_SYS_ATTR_MISSING
  | BLE_GATTS_EVT_HVC
  | BLE_GATTS_EVT_SC_CONFIRM
  | BLE_GATTS_EVT_TIMEOUT

type_synonym uint16_t = "16 word"

text \<open>
  \<open>name_map_t\<close> (declared in \<open>common.h\<close>) is a map from a 16-bit value to a C string.
  Its initialiser is kept as the list of its entries, in the order of the source; a lookup
  takes the first entry of a key (\<open>map_of\<close>), as inserting an initialiser list into a
  map keeps the first entry of a repeated key.
\<close>

type_synonym name_map_t = "(uint16_t \<times> string) list"

text \<open>
  The macro \<open>NAME_MAP_ENTRY\<close> of \<open>common.h\<close> is not part of the sources either. It builds
  one entry from one constant: the key is the constant's value, the text is given by the
  macro (\<open>nm\<close>, a parameter).
\<close>

definition NAME_MAP_ENTRY ::
  "(gatts_evt \<Rightarrow> uint16_t) \<Rightarrow> (gatts_evt \<Rightarrow> string) \<Rightarrow> gatts_evt \<Rightarrow> uint16_t \<times> string" where
  "NAME_MAP_ENTRY val nm k = (val k, nm k)"

definition gatts_event_name_map ::
  "(gatts_evt \<Rightarrow> uint16_t) \<Rightarrow> (gatts_evt \<Rightarrow> string) \<Rightarrow> name_map_t" where
  "gatts_event_name_map val nm =
     [ NAME_MAP_ENTRY val nm BLE_GATTS_EVT_WRITE,
       NAME_MAP_ENTRY val nm BLE_GATTS_EVT_RW_AUTHORIZE_REQUEST,
       NAME_MAP_ENTRY val nm BLE_GATTS_EVT_SYS_ATTR_MISSING,
       NAME_MAP_ENTRY val nm BLE_GATTS_EVT_HVC,
       NAME_MAP_ENTRY val nm BLE_GATTS_EVT_SC_CONFIRM,
       NAME_MAP_ENTRY val nm BLE_GATTS_EVT_TIMEOUT ]"

text \<open>
  Modelled from the spec: \<open>ConversionUtility::valueToString\<close> is defined in the common
  conversion code, which is not part of the sources. The spec (4.2, step 1) has the name
  looked up in the closed kind-to-name table, and a kind the table does not know rendered
  as the text the caller supplies.
\<close>

definition valueToString :: "uint16_t \<Rightarrow> name_map_t \<Rightarrow> string \<Rightarrow> string" where
  "valueToString v name_map defaultValue =
     (case map_of name_map v of Some s \<Rightarrow> s | None \<Rightarrow> defaultValue)"

subsection \<open>The event envelope\<close>

text \<open>
  Modelled from the spec: the base class \<open>BleDriverEvent\<close> is declared in \<open>common.h\<close>,
  which is not part of the sources. Its constructor receives the four arguments that
  \<open>BleDriverGattsEvent\<close> passes on, and \<open>getEventName\<close> reads the member \<open>evt_id\<close>;
  the spec (3, Event) gives the envelope the fields kind, timestamp, connection handle and
  payload. The payload is a pointer, which may be null (\<open>None\<close>).
\<close>

record 'p BleDriverEvent =
  evt_id :: uint16_t
  timestamp :: string
  conn_handle :: uint16_t
  evt :: "'p option"

text \<open>The native payload structs of \<open>ble_gatts.h\<close>; their layout is not in the sources.\<close>

typedecl ble_gatts_evt_write_t
typedecl ble_gatts_evt_rw_authorize_request_t
typedecl ble_gatts_evt_sys_attr_missing_t
typedecl ble_gatts_evt_hvc_t
typedecl ble_gatts_evt_timeout_t

text \<open>The public constructor of the class template \<open>BleDriverGattsEvent<EventType>\<close>.\<close>

definition BleDriverGattsEvent ::
  "uint16_t \<Rightarrow> string \<Rightarrow> uint16_t \<Rightarrow> 'p option \<Rightarrow> 'p BleDriverEvent" where
  "BleDriverGattsEvent eid ts ch p =
     \<lparr> evt_id = eid, timestamp = ts, conn_handle = ch, evt = p \<rparr>"

text \<open>
  \<open>virtual EventType *ToNative() { return new EventType(); }\<close>: a newly allocated,
  value-initialised struct, whatever the event holds. The value-initialised struct of the
  payload type is the parameter \<open>value_initialised\<close>; the result is a non-null pointer.
\<close>

definition BleDriverGattsEvent_ToNative :: "'p \<Rightarrow> 'p BleDriverEvent \<Rightarrow> 'p option" where
  "BleDriverGattsEvent_ToNative value_initialised e = Some value_initialised"

text \<open>
  \<open>getEventName\<close> hands the identifier of the event, the table and the text
  \<open>Unknown Gatts Event\<close> to the helper \<open>ConversionUtility::valueToString\<close>. The helper
  is the parameter \<open>vts\<close>, so that what does not depend on the helper is stated for every
  helper; \<open>valueToString\<close> above is the helper as the spec describes it.
\<close>

definition getEventName ::
  "(uint16_t \<Rightarrow> name_map_t \<Rightarrow> string \<Rightarrow> string) \<Rightarrow>
   (gatts_evt \<Rightarrow> uint16_t) \<Rightarrow> (gatts_evt \<Rightarrow> string) \<Rightarrow> 'p BleDriverEvent \<Rightarrow> string" where
  "getEventName vts val nm e =
     vts (evt_id e) (gatts_event_name_map val nm) ''Unknown Gatts Event''"

text \<open>
  The six wrapper classes. Each constructor takes a timestamp, a connection handle and the
  payload pointer, and passes its own constant to the base constructor. None of them
  declares \<open>ToNative\<close>: they inherit the one above.
\<close>

definition GattsWriteEvent ::
  "(gatts_evt \<Rightarrow> uint16_t) \<Rightarrow> string \<Rightarrow> uint16_t \<Rightarrow> ble_gatts_evt_write_t option
     \<Rightarrow> ble_gatts_evt_write_t BleDriverEvent" where
  "GattsWriteEvent val ts ch p = BleDriverGattsEvent (val BLE_GATTS_EVT_WRITE) ts ch p"

definition GattsRWAuthorizeRequestEvent ::
  "(gatts_evt \<Rightarrow> uint16_t) \<Rightarrow> string \<Rightarrow> uint16_t \<Rightarrow> ble_gatts_evt_rw_authorize_request_t option
     \<Rightarrow> ble_gatts_evt_rw_authorize_request_t BleDriverEvent" where
  "GattsRWAuthorizeRequestEvent val ts ch p =
     BleDriverGattsEvent (val BLE_GATTS_EVT_RW_AUTHORIZE_REQUEST) ts ch p"

definition GattsSystemAttributeMissingEvent ::
  "(gatts_evt \<Rightarrow> uint16_t) \<Rightarrow> string \<Rightarrow> uint16_t \<Rightarrow> ble_gatts_evt_sys_attr_missing_t option
     \<Rightarrow> ble_gatts_evt_sys_attr_missing_t BleDriverEvent" where
  "GattsSystemAttributeMissingEvent val ts ch p =
     BleDriverGattsEvent (val BLE_GATTS_EVT_SYS_ATTR_MISSING) ts ch p"

definition GattsHVCEvent ::
  "(gatts_evt \<Rightarrow> uint16_t) \<Rightarrow> string \<Rightarrow> uint16_t \<Rightarrow> ble_gatts_evt_hvc_t option
     \<Rightarrow> ble_gatts_evt_hvc_t BleDriverEvent" where
  "GattsHVCEvent val ts ch p = BleDriverGattsEvent (val BLE_GATTS_EVT_HVC) ts ch p"

definition GattsSCConfirmEvent ::
  "(gatts_evt \<Rightarrow> uint16_t) \<Rightarrow> string \<Rightarrow> uint16_t \<Rightarrow> ble_gatts_evt_timeout_t option
     \<Rightarrow> ble_gatts_evt_timeout_t BleDriverEvent" where
  "GattsSCConfirmEvent val ts ch p = BleDriverGattsEvent (val BLE_GATTS_EVT_SC_CONFIRM) ts ch p"

definition GattsTimeoutEvent ::
  "(gatts_evt \<Rightarrow> uint16_t) \<Rightarrow> string \<Rightarrow> uint16_t \<Rightarrow> ble_gatts_evt_timeout_t option
     \<Rightarrow> ble_gatts_evt_timeout_t BleDriverEvent" where
  "GattsTimeoutEvent val ts ch p = BleDriverGattsEvent (val BLE_GATTS_EVT_TIMEOUT) ts ch p"





text \<open>
  A sample numbering of the six constants (consecutive values from \<open>0x50\<close>) and a sample
  naming, used only to run the definitions on concrete inputs.
\<close>

fun sample_val :: "gatts_evt \<Rightarrow> uint16_t" where
  "sample_val BLE_GATTS_EVT_WRITE = 0x50"
| "sample_val BLE_GATTS_EVT_RW_AUTHORIZE_REQUEST = 0x51"
| "sample_val BLE_GATTS_EVT_SYS_ATTR_MISSING = 0x52"
| "sample_val BLE_GATTS_EVT_HVC = 0x53"
| "sample_val BLE_GATTS_EVT_SC_CONFIRM = 0x54"
| "sample_val BLE_GATTS_EVT_TIMEOUT = 0x55"

fun sample_nm :: "gatts_evt \<Rightarrow> string" where
  "sample_nm BLE_GATTS_EVT_WRITE = ''BLE_GATTS_EVT_WRITE''"
| "sample_nm BLE_GATTS_EVT_RW_AUTHORIZE_REQUEST = ''BLE_GATTS_EVT_RW_AUTHORIZE_REQUEST''"
| "sample_nm BLE_GATTS_EVT_SYS_ATTR_MISSING = ''BLE_GATTS_EVT_SYS_ATTR_MISSING''"
| "sample_nm BLE_GATTS_EVT_HVC = ''BLE_GATTS_EVT_HVC''"
| "sample_nm BLE_GATTS_EVT_SC_CONFIRM = ''BLE_GATTS_EVT_SC_CONFIRM''"
| "sample_nm BLE_GATTS_EVT_TIMEOUT = ''BLE_GATTS_EVT_TIMEOUT''"

section \<open>The converter classes of driver\_gatts.h\<close>

text \<open>
  The classes derived from \<open>BleToJs\<close>, and for each the conversion member functions its
  declaration overrides: \<open>ToJs\<close> (native to managed) and \<open>ToNative\<close> (managed to native).
\<close>

datatype converter =
    GattsEnableParameters
  | GattsAttributeMetadata
  | GattsCharacteristicPresentationFormat
  | GattsCharacteristicMetadata
  | GattsAttribute
  | GattsCharacteristicDefinitionHandles
  | GattsHVXParams
  | GattsValue
  | GattGattsReplyReadWriteAuthorizeParams
  | GattsAuthorizeParameters
  | GattsReadEvent

datatype direction = ToJs | ToNative

fun overrides :: "converter \<Rightarrow> direction list" where
  "overrides GattsEnableParameters = [ToJs, ToNative]"
| "overrides GattsAttributeMetadata = [ToNative]"
| "overrides GattsCharacteristicPresentationFormat = [ToNative]"
| "overrides GattsCharacteristicMetadata = [ToNative]"
| "overrides GattsAttribute = [ToNative]"
| "overrides GattsCharacteristicDefinitionHandles = [ToJs]"
| "overrides GattsHVXParams = [ToNative]"
| "overrides GattsValue = [ToJs, ToNative]"
| "overrides GattGattsReplyReadWriteAuthorizeParams = [ToNative]"
| "overrides GattsAuthorizeParameters = [ToJs, ToNative]"
| "overrides GattsReadEvent = [ToJs]"

definition both_directions :: "converter \<Rightarrow> bool" where
  "both_directions c = (ToJs \<in> set (overrides c) \<and> ToNative \<in> set (overrides c))"

section \<open>The conversion contract of the converter classes\<close>

text \<open>
  Modelled from the spec: the bodies of \<open>ToJs\<close> and \<open>ToNative\<close> of the converter classes
  are in \<open>driver_gatts.cpp\<close>, and the native structs in \<open>ble_gatts.h\<close>; neither is part of
  the sources (the header only declares the member functions). The definitions of this
  section follow the spec: the data model (3) for the fields of each entity, and the
  converter contract (4.1) for the two directions. The spec leaves the managed runtime's
  objects open ("build a record with named fields"): a managed value is a flag, a number,
  a byte sequence, a record of named fields, or the marker of a field that is not present;
  the field names are labels of the model. A managed number is a natural number of any size.
  The native structs are fixed binary layouts (spec 3), of which the spec gives no widths:
  their fields take the widths that the header gives its own members of the same kind,
  \<open>uint16_t\<close> for lengths, offsets and codes (\<open>len\<close>, \<open>handle\<close>, \<open>evt_id\<close>) and
  \<open>uint32_t\<close> for flags.
\<close>

type_synonym uint8_t = "8 word"
type_synonym uint32_t = "32 word"

datatype managed =
    Absent
  | Flag bool
  | Number nat
  | ByteSeq "uint8_t list"
  | Object "(string \<times> managed) list"

text \<open>The one error of a conversion; it names the missing or invalid field.\<close>

datatype error = ConversionError string

fun get_field :: "string \<Rightarrow> managed \<Rightarrow> managed" where
  "get_field k (Object kvs) = (case map_of kvs k of Some v \<Rightarrow> v | None \<Rightarrow> Absent)"
| "get_field k v = Absent"

text \<open>
  Spec 4.1, \<open>ToNative\<close>: a required field that is absent or has the wrong shape fails with
  \<open>ConversionError\<close> naming the field. A number that the native field cannot hold is an
  invalid field as well: the mapping is lossless (spec 2), so a number is never wrapped or
  truncated into the field.
\<close>

definition required_flag :: "string \<Rightarrow> managed \<Rightarrow> error + bool" where
  "required_flag k obj =
     (case get_field k obj of Flag b \<Rightarrow> Inr b | _ \<Rightarrow> Inl (ConversionError k))"

definition required_number :: "string \<Rightarrow> managed \<Rightarrow> error + 'w::len word" where
  "required_number k obj =
     (case get_field k obj of
        Number n \<Rightarrow> if n < 2 ^ LENGTH('w) then Inr (of_nat n) else Inl (ConversionError k)
      | _ \<Rightarrow> Inl (ConversionError k))"

definition required_bytes :: "string \<Rightarrow> managed \<Rightarrow> error + uint8_t list" where
  "required_bytes k obj =
     (case get_field k obj of ByteSeq bs \<Rightarrow> Inr bs | _ \<Rightarrow> Inl (ConversionError k))"


text \<open>
  Spec 3, Value: an offset and a variable-length byte buffer. On the native side a
  variable-length buffer is a pointer, which may be null, and its declared length (4.1).
\<close>

record ble_gatts_value_t =
  len :: uint16_t
  offset :: uint16_t
  p_value :: "uint8_t list option"

text \<open>
  Spec 3, AuthorizeParameters: update flag, gatt status code, flags, and an embedded Value.
\<close>

record ble_gatts_authorize_params_t =
  gatt_status :: uint16_t
  update :: bool
  flags :: uint32_t
  embedded_value :: ble_gatts_value_t

text \<open>
  Spec 3 and 9, ReplyReadWriteAuthorizeParams: a discriminated union keyed by the request
  kind (read or write), each branch carrying its own AuthorizeParameters.
\<close>

datatype ble_gatts_rw_authorize_reply_params_t =
    ReadAuthorize ble_gatts_authorize_params_t
  | WriteAuthorize ble_gatts_authorize_params_t



text \<open>
  \<open>ToNative\<close> allocates the buffer the struct owns: the bytes of the managed byte
  sequence, with their count as the declared length. A byte sequence whose count the
  length field cannot hold is an invalid field.
\<close>

definition GattsValue_ToNative :: "managed \<Rightarrow> error + ble_gatts_value_t" where
  "GattsValue_ToNative js =
     (case required_number ''offset'' js of
        Inl e \<Rightarrow> Inl e
      | Inr off \<Rightarrow>
          (case required_bytes ''value'' js of
             Inl e \<Rightarrow> Inl e
           | Inr bs \<Rightarrow>
               if length bs < 2 ^ LENGTH(16)
               then Inr \<lparr> len = of_nat (length bs), offset = off, p_value = Some bs \<rparr>
               else Inl (ConversionError ''value'')))"


definition GattsAuthorizeParameters_ToNative ::
  "managed \<Rightarrow> error + ble_gatts_authorize_params_t" where
  "GattsAuthorizeParameters_ToNative js =
     (case required_number ''gatt_status'' js of
        Inl e \<Rightarrow> Inl e
      | Inr st \<Rightarrow>
          (case required_flag ''update'' js of
             Inl e \<Rightarrow> Inl e
           | Inr u \<Rightarrow>
               (case required_number ''flags'' js of
                  Inl e \<Rightarrow> Inl e
                | Inr fl \<Rightarrow>
                    (case get_field ''value'' js of
                       Object kvs \<Rightarrow>
                         (case GattsValue_ToNative (Object kvs) of
                            Inl e \<Rightarrow> Inl e
                          | Inr v \<Rightarrow>
                              Inr \<lparr> gatt_status = st, update = u, flags = fl,
                                    embedded_value = v \<rparr>)
                     | _ \<Rightarrow> Inl (ConversionError ''value'')))))"


text \<open>
  Spec 8, authorization-reply exclusivity: exactly one of the read and write branches is
  populated; constructing with both or with neither fails.
\<close>

definition GattGattsReplyReadWriteAuthorizeParams_ToNative ::
  "managed \<Rightarrow> error + ble_gatts_rw_authorize_reply_params_t" where
  "GattGattsReplyReadWriteAuthorizeParams_ToNative js =
     (let r = get_field ''read'' js; w = get_field ''write'' js in
      if r \<noteq> Absent \<and> w \<noteq> Absent then Inl (ConversionError ''write'')
      else if r \<noteq> Absent then
        (case GattsAuthorizeParameters_ToNative r of
           Inl e \<Rightarrow> Inl e
         | Inr a \<Rightarrow> Inr (ReadAuthorize a))
      else if w \<noteq> Absent then
        (case GattsAuthorizeParameters_ToNative w of
           Inl e \<Rightarrow> Inl e
         | Inr a \<Rightarrow> Inr (WriteAuthorize a))
      else Inl (ConversionError ''read''))"


section \<open>Properties\<close>

lemma gatts_evt_UNIV:
  "(UNIV :: gatts_evt set) =
     {BLE_GATTS_EVT_WRITE, BLE_GATTS_EVT_RW_AUTHORIZE_REQUEST, BLE_GATTS_EVT_SYS_ATTR_MISSING,
      BLE_GATTS_EVT_HVC, BLE_GATTS_EVT_SC_CONFIRM, BLE_GATTS_EVT_TIMEOUT}"
proof -
  have "k \<in> {BLE_GATTS_EVT_WRITE, BLE_GATTS_EVT_RW_AUTHORIZE_REQUEST,
      BLE_GATTS_EVT_SYS_ATTR_MISSING, BLE_GATTS_EVT_HVC, BLE_GATTS_EVT_SC_CONFIRM,
      BLE_GATTS_EVT_TIMEOUT}" for k
    by (cases k) simp_all
  then show ?thesis by blast
qed

lemma name_map_keys:
  "map fst (gatts_event_name_map val nm) =
     map val [BLE_GATTS_EVT_WRITE, BLE_GATTS_EVT_RW_AUTHORIZE_REQUEST,
       BLE_GATTS_EVT_SYS_ATTR_MISSING, BLE_GATTS_EVT_HVC, BLE_GATTS_EVT_SC_CONFIRM,
       BLE_GATTS_EVT_TIMEOUT]"
  by (simp add: gatts_event_name_map_def NAME_MAP_ENTRY_def)

lemma sample_val_inj: "inj sample_val"
proof (rule injI)
  fix j k
  assume "sample_val j = sample_val k"
  then show "j = k" by (cases j; cases k) simp_all
qed

lemma name_map_lookup:
  assumes "inj val"
  shows "map_of (gatts_event_name_map val nm) (val k) = Some (nm k)"
  using assms by (cases k) (simp_all add: gatts_event_name_map_def NAME_MAP_ENTRY_def inj_eq)

lemma name_map_dom: "dom (map_of (gatts_event_name_map val nm)) = range val"
proof -
  have "dom (map_of (gatts_event_name_map val nm)) = set (map fst (gatts_event_name_map val nm))"
    by (simp add: dom_map_of_conv_image_fst)
  also have "\<dots> = val ` UNIV"
    unfolding name_map_keys gatts_evt_UNIV by simp
  finally show ?thesis .
qed

lemma evt_id_wrappers:
  "evt_id (GattsWriteEvent val ts ch p1) = val BLE_GATTS_EVT_WRITE"
  "evt_id (GattsRWAuthorizeRequestEvent val ts ch p2) = val BLE_GATTS_EVT_RW_AUTHORIZE_REQUEST"
  "evt_id (GattsSystemAttributeMissingEvent val ts ch p3) = val BLE_GATTS_EVT_SYS_ATTR_MISSING"
  "evt_id (GattsHVCEvent val ts ch p4) = val BLE_GATTS_EVT_HVC"
  "evt_id (GattsSCConfirmEvent val ts ch p5) = val BLE_GATTS_EVT_SC_CONFIRM"
  "evt_id (GattsTimeoutEvent val ts ch p6) = val BLE_GATTS_EVT_TIMEOUT"
  by (simp_all add: GattsWriteEvent_def GattsRWAuthorizeRequestEvent_def
      GattsSystemAttributeMissingEvent_def GattsHVCEvent_def GattsSCConfirmEvent_def
      GattsTimeoutEvent_def BleDriverGattsEvent_def)

subsection \<open>Conversion directions of the converter classes\<close>

text \<open>
  C1, as the claim states it, fails: \<open>GattsValue\<close> is not \<open>GattsEnableParameters\<close> and
  its declaration overrides both \<open>ToJs\<close> and \<open>ToNative\<close>.
\<close>

theorem only_enable_parameters_both_counterexample:
  "GattsValue \<noteq> GattsEnableParameters \<and> both_directions GattsValue"
  by (simp add: both_directions_def)

text \<open>
  C1, amended: the converter classes that override both directions are exactly
  \<open>GattsEnableParameters\<close>, \<open>GattsValue\<close> and \<open>GattsAuthorizeParameters\<close>; every other
  converter class overrides exactly one of the two.
\<close>

theorem classes_with_both_directions:
  "both_directions c =
     (c = GattsEnableParameters \<or> c = GattsValue \<or> c = GattsAuthorizeParameters)
   \<and> length (overrides c) = (if both_directions c then 2 else 1)
   \<and> distinct (overrides c)"
  by (cases c) (simp_all add: both_directions_def)

subsection \<open>Events are not converted to native payloads\<close>

text \<open>
  C2: for each of the six event kinds, \<open>ToNative\<close> of an event returns the
  value-initialised payload struct, whatever the identifier, the timestamp, the connection
  handle and the payload of the event are: nothing of an event is converted into a native
  payload, and two events always give the same result.
\<close>

theorem event_ToNative_ignores_event:
  "BleDriverGattsEvent_ToNative z1 (GattsWriteEvent val ts ch p1) = Some z1
   \<and> BleDriverGattsEvent_ToNative z2 (GattsRWAuthorizeRequestEvent val ts ch p2) = Some z2
   \<and> BleDriverGattsEvent_ToNative z3 (GattsSystemAttributeMissingEvent val ts ch p3) = Some z3
   \<and> BleDriverGattsEvent_ToNative z4 (GattsHVCEvent val ts ch p4) = Some z4
   \<and> BleDriverGattsEvent_ToNative z5 (GattsSCConfirmEvent val ts ch p5) = Some z5
   \<and> BleDriverGattsEvent_ToNative z6 (GattsTimeoutEvent val ts ch p6) = Some z6
   \<and> BleDriverGattsEvent_ToNative z e = BleDriverGattsEvent_ToNative z e'"
  by (simp add: BleDriverGattsEvent_ToNative_def)

subsection \<open>Names of events\<close>

text \<open>
  C4: for an event whose identifier is not the value of one of the six known constants,
  \<open>getEventName\<close>, with the helper \<open>valueToString\<close>, returns the text
  \<open>Unknown Gatts Event\<close> (it is a total function: no identifier makes it fail).
\<close>

theorem unknown_event_name:
  assumes "evt_id e \<notin> range val"
  shows "getEventName valueToString val nm e = ''Unknown Gatts Event''"
proof -
  from assms have "evt_id e \<notin> dom (map_of (gatts_event_name_map val nm))"
    by (simp only: name_map_dom not_False_eq_True)
  then have "map_of (gatts_event_name_map val nm) (evt_id e) = None"
    by (simp add: domIff)
  then show ?thesis
    by (simp add: getEventName_def valueToString_def)
qed

theorem unknown_event_name_witness:
  "evt_id (BleDriverGattsEvent 0x99 ''12:00'' 3 (None :: ble_gatts_evt_write_t option))
     \<notin> range sample_val
   \<and> getEventName valueToString sample_val sample_nm
       (BleDriverGattsEvent 0x99 ''12:00'' 3 (None :: ble_gatts_evt_write_t option))
     = ''Unknown Gatts Event''"
proof -
  have h: "evt_id (BleDriverGattsEvent 0x99 ''12:00'' 3 (None :: ble_gatts_evt_write_t option))
     \<notin> range sample_val"
    by (simp add: BleDriverGattsEvent_def gatts_evt_UNIV)
  from h unknown_event_name [OF h] show ?thesis by blast
qed


text \<open>
  C8: the keys of the name table are the values of the six constants, in the order of the
  source, and nothing else: the table has six entries, the entry of a constant \<open>k\<close> pairs
  its value with its text, and a lookup finds an entry exactly for the values of the six
  constants. Where the native header gives the six constants different values, the lookup
  of the value of \<open>k\<close> gives the text of \<open>k\<close>.
\<close>

theorem name_map_exactly_six:
  "gatts_event_name_map val nm =
     map (\<lambda>k. (val k, nm k))
       [BLE_GATTS_EVT_WRITE, BLE_GATTS_EVT_RW_AUTHORIZE_REQUEST,
        BLE_GATTS_EVT_SYS_ATTR_MISSING, BLE_GATTS_EVT_HVC, BLE_GATTS_EVT_SC_CONFIRM,
        BLE_GATTS_EVT_TIMEOUT]
   \<and> length (gatts_event_name_map val nm) = 6
   \<and> dom (map_of (gatts_event_name_map val nm)) = range val
   \<and> (inj val \<longrightarrow> map_of (gatts_event_name_map val nm) (val k) = Some (nm k))"
proof -
  have "gatts_event_name_map val nm =
     map (\<lambda>k. (val k, nm k))
       [BLE_GATTS_EVT_WRITE, BLE_GATTS_EVT_RW_AUTHORIZE_REQUEST,
        BLE_GATTS_EVT_SYS_ATTR_MISSING, BLE_GATTS_EVT_HVC, BLE_GATTS_EVT_SC_CONFIRM,
        BLE_GATTS_EVT_TIMEOUT]"
    by (simp add: gatts_event_name_map_def NAME_MAP_ENTRY_def)
  moreover have "length (gatts_event_name_map val nm) = 6"
    by (simp add: gatts_event_name_map_def)
  ultimately show ?thesis
    using name_map_dom [of val nm] name_map_lookup [of val nm k] by blast
qed

theorem name_map_exactly_six_witness:
  "inj sample_val
   \<and> map fst (gatts_event_name_map sample_val sample_nm) = [0x50, 0x51, 0x52, 0x53, 0x54, 0x55]
   \<and> map_of (gatts_event_name_map sample_val sample_nm) 0x53 = Some ''BLE_GATTS_EVT_HVC''
   \<and> map_of (gatts_event_name_map sample_val sample_nm) 0x56 = None"
proof -
  have "map_of (gatts_event_name_map sample_val sample_nm) (sample_val BLE_GATTS_EVT_HVC)
      = Some (sample_nm BLE_GATTS_EVT_HVC)"
    using name_map_exactly_six [of sample_val sample_nm BLE_GATTS_EVT_HVC] sample_val_inj
    by blast
  moreover have "map fst (gatts_event_name_map sample_val sample_nm)
      = [0x50, 0x51, 0x52, 0x53, 0x54, 0x55]"
    by (simp add: name_map_keys)
  moreover have "map_of (gatts_event_name_map sample_val sample_nm) 0x56 = None"
    by (simp add: gatts_event_name_map_def NAME_MAP_ENTRY_def)
  ultimately show ?thesis
    using sample_val_inj by simp
qed

text \<open>
  C9: for each of the six wrapper classes and for every timestamp, connection handle and
  payload pointer, the identifier of the constructed event is the value of the constant of
  the class, and the name of the event is what the helper gives for that value, the table
  and the default text: neither depends on the arguments of the constructor, whatever the
  helper \<open>vts\<close> computes.
\<close>

theorem event_kind_fixed_by_class:
  "evt_id (GattsWriteEvent val ts ch p1) = val BLE_GATTS_EVT_WRITE
   \<and> evt_id (GattsRWAuthorizeRequestEvent val ts ch p2) = val BLE_GATTS_EVT_RW_AUTHORIZE_REQUEST
   \<and> evt_id (GattsSystemAttributeMissingEvent val ts ch p3) = val BLE_GATTS_EVT_SYS_ATTR_MISSING
   \<and> evt_id (GattsHVCEvent val ts ch p4) = val BLE_GATTS_EVT_HVC
   \<and> evt_id (GattsSCConfirmEvent val ts ch p5) = val BLE_GATTS_EVT_SC_CONFIRM
   \<and> evt_id (GattsTimeoutEvent val ts ch p6) = val BLE_GATTS_EVT_TIMEOUT
   \<and> getEventName vts val nm (GattsWriteEvent val ts ch p1)
       = vts (val BLE_GATTS_EVT_WRITE) (gatts_event_name_map val nm) ''Unknown Gatts Event''
   \<and> getEventName vts val nm (GattsRWAuthorizeRequestEvent val ts ch p2)
       = vts (val BLE_GATTS_EVT_RW_AUTHORIZE_REQUEST) (gatts_event_name_map val nm)
           ''Unknown Gatts Event''
   \<and> getEventName vts val nm (GattsSystemAttributeMissingEvent val ts ch p3)
       = vts (val BLE_GATTS_EVT_SYS_ATTR_MISSING) (gatts_event_name_map val nm)
           ''Unknown Gatts Event''
   \<and> getEventName vts val nm (GattsHVCEvent val ts ch p4)
       = vts (val BLE_GATTS_EVT_HVC) (gatts_event_name_map val nm) ''Unknown Gatts Event''
   \<and> getEventName vts val nm (GattsSCConfirmEvent val ts ch p5)
       = vts (val BLE_GATTS_EVT_SC_CONFIRM) (gatts_event_name_map val nm) ''Unknown Gatts Event''
   \<and> getEventName vts val nm (GattsTimeoutEvent val ts ch p6)
       = vts (val BLE_GATTS_EVT_TIMEOUT) (gatts_event_name_map val nm) ''Unknown Gatts Event''"
  by (simp add: getEventName_def evt_id_wrappers)

subsection \<open>The converters with both directions\<close>











subsection \<open>The reply to an authorization request\<close>

lemma reply_Inr_one_branch:
  assumes "GattGattsReplyReadWriteAuthorizeParams_ToNative js = Inr n"
  shows "(get_field ''read'' js = Absent) \<noteq> (get_field ''write'' js = Absent)"
  using assms
  by (auto simp: GattGattsReplyReadWriteAuthorizeParams_ToNative_def Let_def split: if_splits)

lemma reply_Inr_read:
  assumes "GattGattsReplyReadWriteAuthorizeParams_ToNative js = Inr (ReadAuthorize a)"
  shows "get_field ''read'' js \<noteq> Absent \<and> get_field ''write'' js = Absent
    \<and> GattsAuthorizeParameters_ToNative (get_field ''read'' js) = Inr a"
  using assms
  by (auto simp: GattGattsReplyReadWriteAuthorizeParams_ToNative_def Let_def
      split: if_splits sum.splits)

lemma reply_Inr_write:
  assumes "GattGattsReplyReadWriteAuthorizeParams_ToNative js = Inr (WriteAuthorize a)"
  shows "get_field ''write'' js \<noteq> Absent \<and> get_field ''read'' js = Absent
    \<and> GattsAuthorizeParameters_ToNative (get_field ''write'' js) = Inr a"
  using assms
  by (auto simp: GattGattsReplyReadWriteAuthorizeParams_ToNative_def Let_def
      split: if_splits sum.splits)

text \<open>
  C6: a native reply struct is one of the two branches of the union, read or write, and
  \<open>ToNative\<close> produces it only from a managed object in which exactly that branch is
  populated; with both branches populated, or with neither, \<open>ToNative\<close> fails with a
  \<open>ConversionError\<close>.
\<close>

theorem reply_exactly_one_branch:
  "(GattGattsReplyReadWriteAuthorizeParams_ToNative js = Inr n \<longrightarrow>
      (get_field ''read'' js = Absent) \<noteq> (get_field ''write'' js = Absent))
   \<and> (GattGattsReplyReadWriteAuthorizeParams_ToNative js1 = Inr (ReadAuthorize a1) \<longrightarrow>
      get_field ''read'' js1 \<noteq> Absent \<and> get_field ''write'' js1 = Absent
      \<and> GattsAuthorizeParameters_ToNative (get_field ''read'' js1) = Inr a1)
   \<and> (GattGattsReplyReadWriteAuthorizeParams_ToNative js2 = Inr (WriteAuthorize a2) \<longrightarrow>
      get_field ''write'' js2 \<noteq> Absent \<and> get_field ''read'' js2 = Absent
      \<and> GattsAuthorizeParameters_ToNative (get_field ''write'' js2) = Inr a2)
   \<and> (get_field ''read'' js3 \<noteq> Absent \<and> get_field ''write'' js3 \<noteq> Absent \<longrightarrow>
      GattGattsReplyReadWriteAuthorizeParams_ToNative js3 = Inl (ConversionError ''write''))
   \<and> (get_field ''read'' js4 = Absent \<and> get_field ''write'' js4 = Absent \<longrightarrow>
      GattGattsReplyReadWriteAuthorizeParams_ToNative js4 = Inl (ConversionError ''read''))"
proof -
  have "get_field ''read'' js3 \<noteq> Absent \<and> get_field ''write'' js3 \<noteq> Absent \<longrightarrow>
      GattGattsReplyReadWriteAuthorizeParams_ToNative js3 = Inl (ConversionError ''write'')"
    by (simp add: GattGattsReplyReadWriteAuthorizeParams_ToNative_def Let_def)
  moreover have "get_field ''read'' js4 = Absent \<and> get_field ''write'' js4 = Absent \<longrightarrow>
      GattGattsReplyReadWriteAuthorizeParams_ToNative js4 = Inl (ConversionError ''read'')"
    by (simp add: GattGattsReplyReadWriteAuthorizeParams_ToNative_def Let_def)
  ultimately show ?thesis
    using reply_Inr_one_branch [of js n] reply_Inr_read [of js1 a1] reply_Inr_write [of js2 a2]
    by blast
qed

theorem reply_exactly_one_branch_witness:
  "GattGattsReplyReadWriteAuthorizeParams_ToNative
      (Object [(''read'',
         Object [(''gatt_status'', Number 0), (''update'', Flag False), (''flags'', Number 0),
                 (''value'', Object [(''offset'', Number 0), (''value'', ByteSeq [0x2A])])])])
     = Inr (ReadAuthorize \<lparr> gatt_status = 0, update = False, flags = 0,
              embedded_value = \<lparr> len = 1, offset = 0, p_value = Some [0x2A] \<rparr> \<rparr>)
   \<and> GattGattsReplyReadWriteAuthorizeParams_ToNative
      (Object [(''write'',
         Object [(''gatt_status'', Number 0), (''update'', Flag True), (''flags'', Number 0),
                 (''value'', Object [(''offset'', Number 0), (''value'', ByteSeq [0x2A])])])])
     = Inr (WriteAuthorize \<lparr> gatt_status = 0, update = True, flags = 0,
              embedded_value = \<lparr> len = 1, offset = 0, p_value = Some [0x2A] \<rparr> \<rparr>)
   \<and> get_field ''read'' (Object [(''read'', Object []), (''write'', Object [])]) \<noteq> Absent
   \<and> get_field ''write'' (Object [(''read'', Object []), (''write'', Object [])]) \<noteq> Absent
   \<and> GattGattsReplyReadWriteAuthorizeParams_ToNative
        (Object [(''read'', Object []), (''write'', Object [])])
     = Inl (ConversionError ''write'')
   \<and> get_field ''read'' (Object []) = Absent
   \<and> get_field ''write'' (Object []) = Absent
   \<and> GattGattsReplyReadWriteAuthorizeParams_ToNative (Object []) = Inl (ConversionError ''read'')"
proof -
  have r: "GattGattsReplyReadWriteAuthorizeParams_ToNative
      (Object [(''read'',
         Object [(''gatt_status'', Number 0), (''update'', Flag False), (''flags'', Number 0),
                 (''value'', Object [(''offset'', Number 0), (''value'', ByteSeq [0x2A])])])])
     = Inr (ReadAuthorize \<lparr> gatt_status = 0, update = False, flags = 0,
              embedded_value = \<lparr> len = 1, offset = 0, p_value = Some [0x2A] \<rparr> \<rparr>)"
    by (simp add: GattGattsReplyReadWriteAuthorizeParams_ToNative_def
        GattsAuthorizeParameters_ToNative_def GattsValue_ToNative_def
        required_number_def required_bytes_def required_flag_def)
  have w: "GattGattsReplyReadWriteAuthorizeParams_ToNative
      (Object [(''write'',
         Object [(''gatt_status'', Number 0), (''update'', Flag True), (''flags'', Number 0),
                 (''value'', Object [(''offset'', Number 0), (''value'', ByteSeq [0x2A])])])])
     = Inr (WriteAuthorize \<lparr> gatt_status = 0, update = True, flags = 0,
              embedded_value = \<lparr> len = 1, offset = 0, p_value = Some [0x2A] \<rparr> \<rparr>)"
    by (simp add: GattGattsReplyReadWriteAuthorizeParams_ToNative_def
        GattsAuthorizeParameters_ToNative_def GattsValue_ToNative_def
        required_number_def required_bytes_def required_flag_def)
  have both: "get_field ''read'' (Object [(''read'', Object []), (''write'', Object [])]) \<noteq> Absent
      \<and> get_field ''write'' (Object [(''read'', Object []), (''write'', Object [])]) \<noteq> Absent"
    by simp
  have neither: "get_field ''read'' (Object []) = Absent \<and> get_field ''write'' (Object []) = Absent"
    by simp
  note t = reply_exactly_one_branch
    [where ?js3.0 = "Object [(''read'', Object []), (''write'', Object [])]"
       and ?js4.0 = "Object []"]
  from t both have e1: "GattGattsReplyReadWriteAuthorizeParams_ToNative
        (Object [(''read'', Object []), (''write'', Object [])])
     = Inl (ConversionError ''write'')"
    by blast
  from t neither have e2:
    "GattGattsReplyReadWriteAuthorizeParams_ToNative (Object []) = Inl (ConversionError ''read'')"
    by blast
  from r w both neither e1 e2 show ?thesis by blast
qed

end
